theory Spec2Isabelle
  imports Main "HOL-Library.Sublist" "HOL-Library.AList"
begin

section \<open>JavaScript values used by the bot\<close>

text \<open>
  Strings are modelled as \<open>string\<close>. Case mapping and whitespace are modelled on the
  ASCII range: \<open>toLowerCase\<close> maps \<open>A..Z\<close> to \<open>a..z\<close> and leaves every other
  character alone, \<open>trim\<close> strips tab, line feed, vertical tab, form feed, carriage
  return and space.
\<close>

text \<open>A thrown JavaScript error: the handlers only ever read \<open>name\<close> and \<open>message\<close>.\<close>

record js_error =
  err_name :: string
  err_message :: string

definition TypeError :: "string \<Rightarrow> js_error" where
  "TypeError msg = \<lparr>err_name = ''TypeError'', err_message = msg\<rparr>"

definition Error :: "string \<Rightarrow> js_error" where
  "Error msg = \<lparr>err_name = ''Error'', err_message = msg\<rparr>"

text \<open>\<open>s.indexOf(p)\<close>: the first position where \<open>p\<close> occurs in \<open>s\<close>, or \<open>-1\<close>.\<close>

fun indexOf :: "string \<Rightarrow> string \<Rightarrow> int" where
  "indexOf [] p = (if p = [] then 0 else - 1)"
| "indexOf (c # s) p =
     (if prefix p (c # s) then 0
      else (let r = indexOf s p in if r < 0 then - 1 else r + 1))"

text \<open>
  \<open>s.substr(start, length)\<close> and \<open>s.substr(start)\<close>. Every call in the source has
  \<open>start \<ge> 0\<close>; a length that is not positive gives the empty string.
\<close>

definition substr2 :: "string \<Rightarrow> int \<Rightarrow> int \<Rightarrow> string" where
  "substr2 s start len = (if len \<le> 0 then [] else take (nat len) (drop (nat start) s))"

definition substr1 :: "string \<Rightarrow> int \<Rightarrow> string" where
  "substr1 s start = drop (nat start) s"

definition toLowerCase_char :: "char \<Rightarrow> char" where
  "toLowerCase_char c =
     (case map_of (zip ''ABCDEFGHIJKLMNOPQRSTUVWXYZ'' ''abcdefghijklmnopqrstuvwxyz'') c of
        Some l \<Rightarrow> l
      | None \<Rightarrow> c)"

definition toLowerCase :: "string \<Rightarrow> string" where
  "toLowerCase s = map toLowerCase_char s"

definition is_space :: "char \<Rightarrow> bool" where
  "is_space c = (c \<in> set [CHR 0x09, CHR 0x0A, CHR 0x0B, CHR 0x0C, CHR 0x0D, CHR 0x20])"

definition trim :: "string \<Rightarrow> string" where
  "trim s = rev (dropWhile is_space (rev (dropWhile is_space s)))"

text \<open>\<open>a || b\<close> on strings: the empty string is falsy.\<close>

definition or_else :: "string \<Rightarrow> string \<Rightarrow> string" where
  "or_else a b = (if a = [] then b else a)"

section \<open>The world the bot acts on\<close>

text \<open>The inbound Slack message: \<open>{text, user, channel}\<close>.\<close>

record message =
  m_text :: string
  m_user :: string
  m_channel :: string

text \<open>Every line the code writes through \<open>debug\<close> or \<open>console.log\<close>.\<close>

datatype debug_line =
    ManagerCreated
  | AddModule string
  | MessageReceived message
  | BeginningToDispatch string
  | Received string bool
  | RedirectingTo string
  | ListOfCommands "string list"
  | DispatchingCommand string string
  | FailedToDispatch string js_error
  | ConsoleLog js_error
  | ErrorWhileStarting string js_error
  | ErrorWhileBreak string js_error
  | ErrorWhileContinue string js_error
  | ErrorWhileEnd string js_error
  | MessageConstructed message
  | MessageSent string
  | CommandExtracted string string
  | ErrorMessageSent string
  | ErrorSendingError js_error

text \<open>
  The state outside the Manager: the messages handed to \<open>bot.rtm.sendMessage\<close> (text and
  channel, oldest first), the debug output, the persisted workdays (the store of the
  \<open>Workday\<close> model, of any type) and the clock read by \<open>new Date()\<close>.
\<close>

record 'db world =
  outbox :: "(string \<times> string) list"
  debug_log :: "debug_line list"
  store :: 'db
  now :: nat

definition debug :: "debug_line \<Rightarrow> 'db world \<Rightarrow> 'db world" where
  "debug l w = w\<lparr>debug_log := debug_log w @ [l]\<rparr>"

text \<open>
  A call that may throw: the error, if any, and the world it leaves behind. Such a call
  made without \<open>await\<close> only throws what it throws synchronously; what a returned promise
  does later is outside the caller's \<open>try\<close>.
\<close>

type_synonym 'db effect = "'db world \<Rightarrow> js_error option \<times> 'db world"

text \<open>
  An external command module. \<open>dispatchCommand_of\<close> is its \<open>dispatchCommand\<close> member,
  \<open>None\<close> when the module has none.
\<close>

record 'db command_module =
  dispatchCommand_of :: "(message \<Rightarrow> string \<Rightarrow> 'db effect) option"

record bot =
  bot_id :: string
  owner_id :: string
  channels :: "string \<rightharpoonup> string"

record 'db Manager =
  bot :: bot
  commands :: "(string \<times> 'db command_module) list"

section \<open>Manager: construction\<close>

text \<open>
  The body of the \<open>_.forEach\<close> over \<open>commandModules\<close>: each module with a
  \<open>dispatchCommand\<close> is stored under \<open>'_' + key\<close>; the first one without it throws.
\<close>

fun add_modules ::
  "(string \<times> 'db command_module) list \<Rightarrow> (string \<times> 'db command_module) list \<Rightarrow> 'db world
    \<Rightarrow> (js_error + (string \<times> 'db command_module) list) \<times> 'db world" where
  "add_modules [] cs w = (Inr cs, w)"
| "add_modules ((key, mdl) # rest) cs w =
     (case dispatchCommand_of mdl of
        Some f \<Rightarrow> add_modules rest (AList.update (CHR ''_'' # key) mdl cs) (debug (AddModule key) w)
      | None \<Rightarrow> (Inl (Error ''Module does not have dispatchCommand() method.''), w))"

text \<open>\<open>new Manager(bot, commandModules)\<close>; \<open>commandModules\<close> may be absent.\<close>

definition Manager_new ::
  "bot \<Rightarrow> (string \<times> 'db command_module) list option \<Rightarrow> 'db world
    \<Rightarrow> (js_error + 'db Manager) \<times> 'db world" where
  "Manager_new b commandModules w =
     (let w1 = debug ManagerCreated w in
      case commandModules of
        None \<Rightarrow> (Inr \<lparr>bot = b, commands = []\<rparr>, w1)
      | Some mods \<Rightarrow>
          (case add_modules mods [] w1 of
             (Inl err, w2) \<Rightarrow> (Inl err, w2)
           | (Inr cs, w2) \<Rightarrow> (Inr \<lparr>bot = b, commands = cs\<rparr>, w2)))"

section \<open>The Workday model\<close>

text \<open>
  \<open>models/workday\<close> is a module of its own; the calls the Manager makes to it are
  parameters of the model: any store type \<open>'db\<close>, any workday handle \<open>'wd\<close>, any
  behaviour. A rejected promise is the error value, and a call that fails leaves the
  store as it was.
\<close>

record interval =
  i_begin :: nat
  i_description :: string

record workday_doc =
  slackId :: string
  wd_begin :: nat
  intervals :: "interval list"

text \<open>The members of a Manager instance that \<open>this[name]\<close> can find.\<close>

datatype member =
    Prop_bot | Prop_commands
  | Meth_constructor | Meth_listen | Meth_dispatchCommand | Meth_send
  | Meth_start | Meth_break | Meth_continue | Meth_end

text \<open>
  \<open>unprefixed\<close> is what calling one of the methods \<open>constructor\<close>, \<open>listen\<close>,
  \<open>dispatchCommand\<close> or \<open>send\<close> with a handler's arguments \<open>(text, user, channel)\<close>
  would do; it is left open.
\<close>

record ('db, 'wd) env =
  isLastDayEnded :: "string \<Rightarrow> 'db \<Rightarrow> js_error option"
  save :: "workday_doc \<Rightarrow> 'db \<Rightarrow> js_error + 'db"
  getLastWorkdayByUser :: "string \<Rightarrow> 'db \<Rightarrow> js_error + 'wd option"
  giveBreak :: "'wd \<Rightarrow> 'db \<Rightarrow> js_error + 'db"
  continueDay :: "'wd \<Rightarrow> string \<Rightarrow> 'db \<Rightarrow> js_error + 'db"
  endDay :: "'wd \<Rightarrow> 'db \<Rightarrow> js_error + 'db"
  unprefixed :: "member \<Rightarrow> string \<Rightarrow> string \<Rightarrow> string \<Rightarrow> 'db effect"

section \<open>Manager: sending and the built-in handlers\<close>

text \<open>\<open>this.bot.channels[channel] || channel\<close>\<close>

definition send_target :: "bot \<Rightarrow> string \<Rightarrow> string" where
  "send_target b channel =
     (case channels b channel of None \<Rightarrow> channel | Some c \<Rightarrow> or_else c channel)"

text \<open>
  \<open>send(message, channel)\<close> hands the message to \<open>bot.rtm.sendMessage\<close>, which is taken
  not to throw.
\<close>

definition Manager_send :: "'db Manager \<Rightarrow> string \<Rightarrow> string \<Rightarrow> 'db world \<Rightarrow> 'db world" where
  "Manager_send mgr msg channel w =
     w\<lparr>outbox := outbox w @ [(msg, send_target (bot mgr) channel)]\<rparr>"

text \<open>\<open>err.name == 'LeakableBotError' ? err.message : 'problems captain!'\<close>\<close>

definition errorMessage :: "js_error \<Rightarrow> string" where
  "errorMessage err =
     (if err_name err = ''LeakableBotError'' then err_message err else ''problems captain!'')"

text \<open>
  The four handlers are \<open>async\<close> with their whole body in \<open>try\<close>/\<open>catch\<close>: they never
  throw to their caller. Each is run to its end at the call.
\<close>

definition Manager_start ::
  "('db, 'wd) env \<Rightarrow> 'db Manager \<Rightarrow> string \<Rightarrow> string \<Rightarrow> string \<Rightarrow> 'db world \<Rightarrow> 'db world" where
  "Manager_start e mgr txt slack_id channel w =
     (let catch = (\<lambda>err w'.
            Manager_send mgr (''<@'' @ slack_id @ ''>, '' @ errorMessage err) channel
              (debug (ErrorWhileStarting slack_id err) (debug (ConsoleLog err) w')))
      in case isLastDayEnded e slack_id (store w) of
           Some err \<Rightarrow> catch err w
         | None \<Rightarrow>
             (let newWorkday = \<lparr>slackId = slack_id, wd_begin = now w,
                    intervals = [\<lparr>i_begin = now w, i_description = txt\<rparr>]\<rparr>
              in case save e newWorkday (store w) of
                   Inl err \<Rightarrow> catch err w
                 | Inr db \<Rightarrow>
                     Manager_send mgr
                       (''<@'' @ slack_id @ ''>'' @ [CHR 0x27] @ ''s workday is just started with '' @ txt @ ''.'')
                       channel (w\<lparr>store := db\<rparr>)))"

definition Manager_break ::
  "('db, 'wd) env \<Rightarrow> 'db Manager \<Rightarrow> string \<Rightarrow> string \<Rightarrow> string \<Rightarrow> 'db world \<Rightarrow> 'db world" where
  "Manager_break e mgr txt slack_id channel w =
     (let catch = (\<lambda>err w'.
            Manager_send mgr (''<@'' @ slack_id @ ''>, '' @ errorMessage err) channel
              (debug (ErrorWhileBreak slack_id err) w'))
      in case getLastWorkdayByUser e slack_id (store w) of
           Inl err \<Rightarrow> catch err w
         | Inr None \<Rightarrow> catch (TypeError ''lastWorkday is null'') w
         | Inr (Some lastWorkday) \<Rightarrow>
             (case giveBreak e lastWorkday (store w) of
                Inl err \<Rightarrow> catch err w
              | Inr db \<Rightarrow>
                  Manager_send mgr (''<@'' @ slack_id @ ''> is giving a break. ('' @ txt @ '')'')
                    channel (w\<lparr>store := db\<rparr>)))"

definition Manager_continue ::
  "('db, 'wd) env \<Rightarrow> 'db Manager \<Rightarrow> string \<Rightarrow> string \<Rightarrow> string \<Rightarrow> 'db world \<Rightarrow> 'db world" where
  "Manager_continue e mgr txt slack_id channel w =
     (let catch = (\<lambda>err w'.
            Manager_send mgr (''<@'' @ slack_id @ ''>, '' @ errorMessage err) channel
              (debug (ErrorWhileContinue slack_id err) w'))
      in case getLastWorkdayByUser e slack_id (store w) of
           Inl err \<Rightarrow> catch err w
         | Inr None \<Rightarrow> catch (TypeError ''lastWorkday is null'') w
         | Inr (Some lastWorkday) \<Rightarrow>
             (case continueDay e lastWorkday txt (store w) of
                Inl err \<Rightarrow> catch err w
              | Inr db \<Rightarrow>
                  Manager_send mgr
                    (''<@'' @ slack_id @ ''>'' @ [CHR 0x27] @ ''s workday continues with '' @ txt @ ''.'')
                    channel (w\<lparr>store := db\<rparr>)))"

definition Manager_end ::
  "('db, 'wd) env \<Rightarrow> 'db Manager \<Rightarrow> string \<Rightarrow> string \<Rightarrow> string \<Rightarrow> 'db world \<Rightarrow> 'db world" where
  "Manager_end e mgr txt slack_id channel w =
     (let catch = (\<lambda>err w'.
            Manager_send mgr (''<@'' @ slack_id @ ''>, '' @ errorMessage err) channel
              (debug (ErrorWhileEnd slack_id err) w'))
      in case getLastWorkdayByUser e slack_id (store w) of
           Inl err \<Rightarrow> catch err w
         | Inr None \<Rightarrow> catch (TypeError ''lastWorkday is null'') w
         | Inr (Some lastWorkday) \<Rightarrow>
             (case endDay e lastWorkday (store w) of
                Inl err \<Rightarrow> catch err w
              | Inr db \<Rightarrow>
                  Manager_send mgr (''End of the workday for <@'' @ slack_id @ ''>.'')
                    channel (w\<lparr>store := db\<rparr>)))"

section \<open>Manager: dispatch\<close>

text \<open>
  \<open>this[name]\<close> on a Manager instance: its two fields and the methods of the class.
  Names inherited from \<open>Object.prototype\<close> (such as \<open>__proto__\<close>) are left out, here and
  in the command map: none of them is callable as a handler, so they end in the same
  \<open>TypeError\<close> and the same reply as a name that is not found.
\<close>

definition self_lookup :: "string \<Rightarrow> member option" where
  "self_lookup name =
     map_of [(''bot'', Prop_bot), (''commands'', Prop_commands),
             (''constructor'', Meth_constructor), (''listen'', Meth_listen),
             (''dispatchCommand'', Meth_dispatchCommand),
             (''_start'', Meth_start), (''_break'', Meth_break),
             (''_continue'', Meth_continue), (''_end'', Meth_end),
             (''send'', Meth_send)] name"

text \<open>
  \<open>this[command](text || '', message.user, message.channel)\<close> once the member is found:
  a field is not callable, a built-in handler runs, the other methods are \<open>unprefixed\<close>.
\<close>

fun call_member ::
  "('db, 'wd) env \<Rightarrow> 'db Manager \<Rightarrow> member \<Rightarrow> string \<Rightarrow> string \<Rightarrow> string \<Rightarrow> 'db effect" where
  "call_member e mgr Prop_bot txt usr ch w = (Some (TypeError ''this[command] is not a function''), w)"
| "call_member e mgr Prop_commands txt usr ch w = (Some (TypeError ''this[command] is not a function''), w)"
| "call_member e mgr Meth_start txt usr ch w = (None, Manager_start e mgr txt usr ch w)"
| "call_member e mgr Meth_break txt usr ch w = (None, Manager_break e mgr txt usr ch w)"
| "call_member e mgr Meth_continue txt usr ch w = (None, Manager_continue e mgr txt usr ch w)"
| "call_member e mgr Meth_end txt usr ch w = (None, Manager_end e mgr txt usr ch w)"
| "call_member e mgr other txt usr ch w = unprefixed e other txt usr ch w"

text \<open>The first two statements of \<open>dispatchCommand\<close>: the command key and the remaining text.\<close>

definition command_of :: "string \<Rightarrow> string" where
  "command_of t = CHR ''_'' # or_else (substr2 t 0 (indexOf t '' '')) t"

definition argument_of :: "string \<Rightarrow> string" where
  "argument_of t = (if indexOf t '' '' \<noteq> - 1 then substr1 t (indexOf t '' '' + 1) else [])"

text \<open>
  \<open>dispatchCommand(message)\<close>. The \<open>catch\<close> sees what the \<open>try\<close> throws synchronously:
  a module's \<open>dispatchCommand\<close> that throws, or a call of something that is not a
  function. It reads \<open>message.text\<close> as the \<open>try\<close> left it. A module is taken not to
  change the message object it is handed.
\<close>

definition dispatch_catch :: "'db Manager \<Rightarrow> message \<Rightarrow> js_error \<Rightarrow> 'db world \<Rightarrow> 'db world" where
  "dispatch_catch mgr m err w =
     Manager_send mgr (''<@'' @ m_user m @ ''>, '' @ errorMessage err) (m_channel m)
       (debug (FailedToDispatch (m_text m) err) w)"

definition Manager_dispatchCommand ::
  "('db, 'wd) env \<Rightarrow> 'db Manager \<Rightarrow> message \<Rightarrow> 'db world \<Rightarrow> 'db world" where
  "Manager_dispatchCommand e mgr m w =
     (let command = command_of (m_text m);
          txt = argument_of (m_text m);
          w1 = debug (Received command (owner_id (bot mgr) = m_user m)) w
      in case map_of (commands mgr) command of
           Some mdl \<Rightarrow>
             (let m' = m\<lparr>m_text := txt\<rparr>;
                  w2 = debug (ListOfCommands (map fst (commands mgr)))
                         (debug (RedirectingTo command) w1)
              in case dispatchCommand_of mdl of
                   None \<Rightarrow>
                     dispatch_catch mgr m'
                       (TypeError ''this.commands[command].dispatchCommand is not a function'') w2
                 | Some f \<Rightarrow>
                     (case f m' (m_user m') w2 of
                        (None, w3) \<Rightarrow> w3
                      | (Some err, w3) \<Rightarrow> dispatch_catch mgr m' err w3))
         | None \<Rightarrow>
             (let w2 = debug (DispatchingCommand command (m_user m)) w1
              in case self_lookup command of
                   None \<Rightarrow> dispatch_catch mgr m (TypeError ''this[command] is not a function'') w2
                 | Some mem \<Rightarrow>
                     (case call_member e mgr mem (or_else txt []) (m_user m) (m_channel m) w2 of
                        (None, w3) \<Rightarrow> w3
                      | (Some err, w3) \<Rightarrow> dispatch_catch mgr m err w3)))"

section \<open>Manager: the message listener\<close>

text \<open>The mention of a user in message text: \<open><@id>\<close>.\<close>

definition mention :: "string \<Rightarrow> string" where
  "mention uid = ''<@'' @ uid @ ''>''"

text \<open>
  The callback that \<open>listen()\<close> registers for \<open>'message'\<close> events. \<open>message.channel[0]\<close>
  of an empty channel id is \<open>undefined\<close>, which is neither letter.
\<close>

definition Manager_listen ::
  "('db, 'wd) env \<Rightarrow> 'db Manager \<Rightarrow> message \<Rightarrow> 'db world \<Rightarrow> 'db world" where
  "Manager_listen e mgr m w =
     (let w1 = debug (MessageReceived m) w;
          messageText = trim (m_text m)
      in if (case m_channel m of [] \<Rightarrow> True | c # cs \<Rightarrow> c \<noteq> CHR ''C'' \<and> c \<noteq> CHR ''D'')
         then w1
         else
           (let messageText' =
                  (if indexOf (m_text m) (mention (bot_id (bot mgr))) = 0
                   then substr1 messageText (indexOf messageText '' '' + 1)
                   else messageText);
                m' = m\<lparr>m_text := messageText'\<rparr>;
                w2 = debug (BeginningToDispatch (m_text m')) w1
            in Manager_dispatchCommand e mgr m' w2))"

section \<open>The Message class\<close>

text \<open>
  \<open>reply\<close> and \<open>throw\<close> call \<open>this.send\<close>, which the class itself does not declare:
  \<open>send_of\<close> is that member, \<open>None\<close> unless something gives the object one.
\<close>

record 'db Message =
  messageObject :: message
  msg_text :: string
  msg_command :: string
  msg_user :: string
  send_of :: "(string \<Rightarrow> string \<Rightarrow> 'db effect) option"

definition Message_new :: "message \<Rightarrow> 'db world \<Rightarrow> 'db Message \<times> 'db world" where
  "Message_new slackMessage w =
     (\<lparr>messageObject = slackMessage, msg_text = m_text slackMessage, msg_command = [],
       msg_user = m_user slackMessage, send_of = None\<rparr>,
      debug (MessageConstructed slackMessage) w)"

definition Message_reply :: "'db Message \<Rightarrow> string \<Rightarrow> 'db effect" where
  "Message_reply M txt w =
     (case send_of M of
        None \<Rightarrow> (Some (TypeError ''this.send is not a function''), w)
      | Some send \<Rightarrow>
          (case send txt (m_channel (messageObject M)) w of
             (Some err, w1) \<Rightarrow> (Some err, w1)
           | (None, w1) \<Rightarrow> (None, debug (MessageSent txt) w1)))"

definition Message_extractCommand ::
  "'db Message \<Rightarrow> 'db world \<Rightarrow> (string \<times> string) \<times> 'db Message \<times> 'db world" where
  "Message_extractCommand M w =
     (let t = m_text (messageObject M);
          command = CHR ''_'' # toLowerCase (or_else (substr2 t 0 (indexOf t '' '')) t);
          txt = (if indexOf t '' '' \<noteq> - 1 then substr1 t (indexOf t '' '' + 1) else [])
      in ((command, txt), M\<lparr>msg_command := command, msg_text := txt\<rparr>,
          debug (CommandExtracted command txt) w))"

definition Message_throw :: "'db Message \<Rightarrow> js_error \<Rightarrow> 'db world \<Rightarrow> 'db world" where
  "Message_throw M error w =
     (let returnText =
            (if err_name error = ''TypeError''
             then ''<@'' @ msg_user M @ ''>, command '' @ [CHR 0x27] @ msg_command M @ [CHR 0x27]
                    @ '' does not exist.''
             else if err_name error = ''LeakableBotError''
             then ''<@'' @ msg_user M @ ''>, '' @ err_message error
             else ''Problems captain!'')
      in case send_of M of
           None \<Rightarrow> debug (ErrorSendingError (TypeError ''this.send is not a function'')) w
         | Some send \<Rightarrow>
             (case send (''<@'' @ msg_user M @ ''>,'' @ toLowerCase returnText)
                     (m_channel (messageObject M)) w of
                (Some err, w1) \<Rightarrow> debug (ErrorSendingError err) w1
              | (None, w1) \<Rightarrow> debug (ErrorMessageSent returnText) w1))"

section \<open>What the specification describes\<close>

text \<open>
  The specification's Message Normalizer, in its own words: split on the first whitespace
  run; the lower-cased leading token is the command key, the remainder the argument text.
  It is compared with \<open>Message_extractCommand\<close> and \<open>command_of\<close>/\<open>argument_of\<close> below.
\<close>

definition spec_normalize :: "string \<Rightarrow> string \<times> string" where
  "spec_normalize t =
     (toLowerCase (takeWhile (\<lambda>c. \<not> is_space c) t),
      dropWhile is_space (dropWhile (\<lambda>c. \<not> is_space c) t))"


section \<open>Collaborators for concrete runs\<close>

text \<open>
  An in-memory stand-in for the Workday model: the store is the list of saved workdays,
  a user's day counts as not ended as soon as one is saved, and break, continue and end
  leave the store alone.
\<close>

definition example_env :: "(workday_doc list, workday_doc) env" where
  "example_env =
     \<lparr>isLastDayEnded = (\<lambda>uid db.
          if list_ex (\<lambda>d. slackId d = uid) db
          then Some \<lparr>err_name = ''LeakableBotError'', err_message = ''Your last workday is not ended.''\<rparr>
          else None),
      save = (\<lambda>d db. Inr (db @ [d])),
      getLastWorkdayByUser = (\<lambda>uid db. Inr (find (\<lambda>d. slackId d = uid) (rev db))),
      giveBreak = (\<lambda>wd db. Inr db),
      continueDay = (\<lambda>wd txt db. Inr db),
      endDay = (\<lambda>wd db. Inr db),
      unprefixed = (\<lambda>mem txt usr ch w. (None, w))\<rparr>"

definition example_bot :: bot where
  "example_bot = \<lparr>bot_id = ''B1'', owner_id = ''U0'', channels = Map.empty\<rparr>"

definition empty_world :: "workday_doc list world" where
  "empty_world = \<lparr>outbox = [], debug_log = [], store = [], now = 0\<rparr>"

text \<open>A module that answers with the text it was handed, one that throws, one without
  \<open>dispatchCommand\<close>.\<close>

definition echo_module :: "'db command_module" where
  "echo_module =
     \<lparr>dispatchCommand_of = Some (\<lambda>m uid w.
        (None, w\<lparr>outbox := outbox w @ [(''echo: '' @ m_text m, m_channel m)]\<rparr>))\<rparr>"

definition throwing_module :: "js_error \<Rightarrow> 'db command_module" where
  "throwing_module err = \<lparr>dispatchCommand_of = Some (\<lambda>m uid w. (Some err, w))\<rparr>"

definition module_without_dispatch :: "'db command_module" where
  "module_without_dispatch = \<lparr>dispatchCommand_of = None\<rparr>"

section \<open>Facts about the string primitives\<close>

lemma indexOf_ge: "- 1 \<le> indexOf s p"
  by (induction s) (auto simp: Let_def)

lemma indexOf_char_absent: "indexOf s [c] = - 1 \<longleftrightarrow> c \<notin> set s"
proof (induction s)
  case Nil
  show ?case by simp
next
  case (Cons a s)
  have "- 1 \<le> indexOf s [c]" by (rule indexOf_ge)
  with Cons show ?case by (auto simp: Let_def)
qed

lemma indexOf_char_present:
  "c \<in> set s \<Longrightarrow> indexOf s [c] = int (length (takeWhile (\<lambda>x. x \<noteq> c) s))"
proof (induction s)
  case Nil
  then show ?case by simp
next
  case (Cons a s)
  show ?case
  proof (cases "a = c")
    case True
    then show ?thesis by simp
  next
    case False
    with Cons.prems have "c \<in> set s" by simp
    with Cons.IH False show ?thesis by (simp add: Let_def)
  qed
qed

lemma indexOf_zero_iff: "indexOf s p = 0 \<longleftrightarrow> prefix p s"
proof (cases s)
  case Nil
  then show ?thesis by simp
next
  case (Cons a s')
  have "- 1 \<le> indexOf s' p" by (rule indexOf_ge)
  then show ?thesis using Cons by (auto simp: Let_def)
qed

lemma command_of_eq:
  "command_of t =
     CHR ''_'' # (if CHR '' '' \<notin> set t \<or> takeWhile (\<lambda>x. x \<noteq> CHR '' '') t = [] then t
                  else takeWhile (\<lambda>x. x \<noteq> CHR '' '') t)"
proof (cases "CHR '' '' \<in> set t")
  case True
  then show ?thesis
    by (simp add: command_of_def or_else_def substr2_def indexOf_char_present
        takeWhile_eq_take [symmetric])
next
  case False
  then have "indexOf t '' '' = - 1" by (simp add: indexOf_char_absent)
  then show ?thesis using False by (simp add: command_of_def or_else_def substr2_def)
qed

lemma argument_of_eq:
  "argument_of t =
     (if CHR '' '' \<in> set t then tl (dropWhile (\<lambda>x. x \<noteq> CHR '' '') t) else [])"
proof (cases "CHR '' '' \<in> set t")
  case True
  then have "indexOf t '' '' \<noteq> - 1" by (simp add: indexOf_char_absent)
  then show ?thesis using True
    by (simp add: argument_of_def substr1_def indexOf_char_present nat_add_distrib
        dropWhile_eq_drop drop_Suc tl_drop)
next
  case False
  then show ?thesis by (simp add: argument_of_def indexOf_char_absent)
qed

section \<open>Facts about construction\<close>

lemma add_modules_map_of:
  "add_modules mods cs w = (Inr cs', w') \<Longrightarrow>
     map_of cs' = map_of cs ++ map_of (rev (map (\<lambda>(key, mdl). (CHR ''_'' # key, mdl)) mods))"
proof (induction mods arbitrary: cs w)
  case Nil
  then show ?case by simp
next
  case (Cons km rest)
  obtain key mdl where km: "km = (key, mdl)" by (cases km)
  from Cons.prems km obtain f where f: "dispatchCommand_of mdl = Some f"
    by (cases "dispatchCommand_of mdl") auto
  with Cons.prems km
  have "add_modules rest (AList.update (CHR ''_'' # key) mdl cs) (debug (AddModule key) w) = (Inr cs', w')"
    by simp
  from Cons.IH [OF this]
  have ih: "map_of cs' = (map_of cs)(CHR ''_'' # key \<mapsto> mdl) ++
      map_of (rev (map (\<lambda>(key, mdl). (CHR ''_'' # key, mdl)) rest))"
    by (simp only: update_conv')
  have one: "(map_of cs)(CHR ''_'' # key \<mapsto> mdl) = map_of cs ++ map_of [(CHR ''_'' # key, mdl)]"
    by simp
  have "map_of (rev (map (\<lambda>(key, mdl). (CHR ''_'' # key, mdl)) (km # rest))) =
      map_of [(CHR ''_'' # key, mdl)] ++ map_of (rev (map (\<lambda>(key, mdl). (CHR ''_'' # key, mdl)) rest))"
    by (simp only: km list.map rev.simps map_of_append prod.case)
  with ih one show ?case by (simp only: map_add_assoc)
qed

lemma add_modules_fails:
  "\<exists>(key, mdl) \<in> set mods. dispatchCommand_of mdl = None \<Longrightarrow>
     fst (add_modules mods cs w) = Inl (Error ''Module does not have dispatchCommand() method.'')"
proof (induction mods arbitrary: cs w)
  case Nil
  then show ?case by simp
next
  case (Cons km rest)
  obtain key mdl where km: "km = (key, mdl)" by (cases km)
  show ?case
  proof (cases "dispatchCommand_of mdl")
    case None
    then show ?thesis by (simp add: km)
  next
    case (Some f)
    with Cons.prems km have "\<exists>(key, mdl) \<in> set rest. dispatchCommand_of mdl = None" by auto
    from Cons.IH [OF this] Some show ?thesis by (simp add: km)
  qed
qed

lemma add_modules_succeeds:
  "\<forall>(key, mdl) \<in> set mods. dispatchCommand_of mdl \<noteq> None \<Longrightarrow>
     \<exists>cs' w'. add_modules mods cs w = (Inr cs', w')"
proof (induction mods arbitrary: cs w)
  case Nil
  then show ?case by simp
next
  case (Cons km rest)
  obtain key mdl where km: "km = (key, mdl)" by (cases km)
  from Cons.prems km obtain f where f: "dispatchCommand_of mdl = Some f" by auto
  from Cons.prems have "\<forall>(key, mdl) \<in> set rest. dispatchCommand_of mdl \<noteq> None" by simp
  from Cons.IH [OF this] f show ?case by (simp add: km)
qed

lemma add_modules_entries:
  "add_modules mods cs w = (Inr cs', w') \<Longrightarrow>
   \<forall>(key, mdl) \<in> set cs. dispatchCommand_of mdl \<noteq> None \<Longrightarrow>
   \<forall>(key, mdl) \<in> set cs'. dispatchCommand_of mdl \<noteq> None"
proof (induction mods arbitrary: cs w)
  case Nil
  then show ?case by simp
next
  case (Cons km rest)
  obtain key mdl where km: "km = (key, mdl)" by (cases km)
  from Cons.prems km obtain f where f: "dispatchCommand_of mdl = Some f"
    by (cases "dispatchCommand_of mdl") auto
  with Cons.prems km
  have run: "add_modules rest (AList.update (CHR ''_'' # key) mdl cs) (debug (AddModule key) w) = (Inr cs', w')"
    by simp
  have "set (AList.update (CHR ''_'' # key) mdl cs) \<subseteq> insert (CHR ''_'' # key, mdl) (set cs)"
    by (induction cs) auto
  with Cons.prems(2) f
  have "\<forall>(key, mdl) \<in> set (AList.update (CHR ''_'' # key) mdl cs). dispatchCommand_of mdl \<noteq> None"
    by auto
  from Cons.IH [OF run this] show ?case .
qed

section \<open>Which members a message can reach\<close>

lemma command_of_underscore: "\<exists>rest. command_of t = CHR ''_'' # rest"
  by (simp add: command_of_def)

lemma self_lookup_underscore:
  "self_lookup (CHR ''_'' # rest) \<in> {None, Some Meth_start, Some Meth_break, Some Meth_continue, Some Meth_end}"
  by (simp add: self_lookup_def)

lemma start_unprefixed: "Manager_start (e\<lparr>unprefixed := u\<rparr>) = Manager_start e"
  by (intro ext) (simp add: Manager_start_def Let_def split: option.splits sum.splits)
lemma break_unprefixed: "Manager_break (e\<lparr>unprefixed := u\<rparr>) = Manager_break e"
  by (intro ext) (simp add: Manager_break_def Let_def split: option.splits sum.splits)
lemma continue_unprefixed: "Manager_continue (e\<lparr>unprefixed := u\<rparr>) = Manager_continue e"
  by (intro ext) (simp add: Manager_continue_def Let_def split: option.splits sum.splits)
lemma end_unprefixed: "Manager_end (e\<lparr>unprefixed := u\<rparr>) = Manager_end e"
  by (intro ext) (simp add: Manager_end_def Let_def split: option.splits sum.splits)

text \<open>
  C10: the key that \<open>dispatchCommand\<close> looks up on the Manager itself always begins with
  an underscore, so the lookup never finds \<open>bot\<close>, \<open>commands\<close>, \<open>constructor\<close>,
  \<open>listen\<close>, \<open>dispatchCommand\<close> or \<open>send\<close>; whatever calling one of those methods
  would do, the outcome of a dispatch does not depend on it.
\<close>

theorem only_underscore_members_reachable:
  "(\<exists>rest. command_of (m_text m) = CHR ''_'' # rest)
   \<and> self_lookup (command_of (m_text m)) \<notin>
       {Some Prop_bot, Some Prop_commands, Some Meth_constructor, Some Meth_listen,
        Some Meth_dispatchCommand, Some Meth_send}
   \<and> Manager_dispatchCommand (e\<lparr>unprefixed := u\<rparr>) mgr m w = Manager_dispatchCommand e mgr m w"
proof -
  obtain rest where key: "command_of (m_text m) = CHR ''_'' # rest"
    using command_of_underscore by blast
  have mem: "self_lookup (command_of (m_text m)) \<in>
      {None, Some Meth_start, Some Meth_break, Some Meth_continue, Some Meth_end}"
    unfolding key by (rule self_lookup_underscore)
  then have not_unprefixed: "self_lookup (command_of (m_text m)) \<notin>
       {Some Prop_bot, Some Prop_commands, Some Meth_constructor, Some Meth_listen,
        Some Meth_dispatchCommand, Some Meth_send}"
    by auto
  have same: "Manager_dispatchCommand (e\<lparr>unprefixed := u\<rparr>) mgr m w = Manager_dispatchCommand e mgr m w"
  proof (cases "map_of (commands mgr) (command_of (m_text m))")
    case (Some mdl)
    then show ?thesis by (simp add: Manager_dispatchCommand_def)
  next
    case None
    from mem consider "self_lookup (command_of (m_text m)) = None"
      | "self_lookup (command_of (m_text m)) = Some Meth_start"
      | "self_lookup (command_of (m_text m)) = Some Meth_break"
      | "self_lookup (command_of (m_text m)) = Some Meth_continue"
      | "self_lookup (command_of (m_text m)) = Some Meth_end"
      by auto
    then show ?thesis
      by cases
        (simp_all add: Manager_dispatchCommand_def None start_unprefixed break_unprefixed
          continue_unprefixed end_unprefixed)
  qed
  from key not_unprefixed same show ?thesis by blast
qed

section \<open>Facts about sending and logging\<close>

lemma outbox_send: "outbox (Manager_send mgr t ch w) = outbox w @ [(t, send_target (bot mgr) ch)]"
  by (simp add: Manager_send_def)

lemma store_send: "store (Manager_send mgr t ch w) = store w"
  by (simp add: Manager_send_def)

lemma outbox_debug: "outbox (debug l w) = outbox w"
  by (simp add: debug_def)

lemma store_debug: "store (debug l w) = store w"
  by (simp add: debug_def)

section \<open>The constructor and the registry\<close>

lemma Manager_new_Some:
  "fst (Manager_new b (Some mods) w) = Inr mgr \<Longrightarrow>
     \<exists>cs w'. add_modules mods [] (debug ManagerCreated w) = (Inr cs, w') \<and> mgr = \<lparr>bot = b, commands = cs\<rparr>"
  by (auto simp: Manager_new_def Let_def split: prod.splits sum.splits)

lemma constructed_entries:
  assumes "fst (Manager_new b mods w) = Inr mgr" and "map_of (commands mgr) key = Some mdl"
  shows "\<exists>f. dispatchCommand_of mdl = Some f"
proof (cases mods)
  case None
  with assms show ?thesis by (auto simp: Manager_new_def Let_def)
next
  case (Some ms)
  with assms(1) obtain cs w' where
    run: "add_modules ms [] (debug ManagerCreated w) = (Inr cs, w')" and
    mgr: "mgr = \<lparr>bot = b, commands = cs\<rparr>"
    using Manager_new_Some by blast
  have "\<forall>(key, mdl) \<in> set cs. dispatchCommand_of mdl \<noteq> None"
    by (rule add_modules_entries [OF run]) simp
  moreover from assms(2) mgr have "(key, mdl) \<in> set cs" by (simp add: map_of_SomeD)
  ultimately show ?thesis by auto
qed

lemma constructed_registry:
  assumes "fst (Manager_new b (Some mods) w) = Inr mgr"
  shows "map_of (commands mgr) = map_of (rev (map (\<lambda>(key, mdl). (CHR ''_'' # key, mdl)) mods))"
proof -
  from assms obtain cs w' where
    run: "add_modules mods [] (debug ManagerCreated w) = (Inr cs, w')" and
    mgr: "mgr = \<lparr>bot = b, commands = cs\<rparr>"
    using Manager_new_Some by blast
  from add_modules_map_of [OF run] mgr show ?thesis by simp
qed

lemma map_of_prefixed:
  "map_of (rev (map (\<lambda>(key, mdl). (CHR ''_'' # key, mdl)) mods)) (CHR ''_'' # key) = map_of (rev mods) key"
proof -
  have "map_of (map (\<lambda>(key, mdl). (CHR ''_'' # key, mdl)) xs) (CHR ''_'' # key) = map_of xs key" for xs :: "(string \<times> 'a) list"
    by (induction xs) auto
  from this [of "rev mods"] show ?thesis by (simp add: rev_map)
qed

lemma map_of_rev_distinct:
  "distinct (map fst xs) \<Longrightarrow> (k, v) \<in> set xs \<Longrightarrow> map_of (rev xs) k = Some v"
  by (rule map_of_is_SomeI) (simp_all add: rev_map [symmetric] del: rev_map)

lemma Manager_new_fails:
  "\<exists>(key, mdl) \<in> set mods. dispatchCommand_of mdl = None \<Longrightarrow>
     fst (Manager_new b (Some mods) w) = Inl (Error ''Module does not have dispatchCommand() method.'')"
  using add_modules_fails [of mods "[]" "debug ManagerCreated w"]
  by (auto simp: Manager_new_def Let_def split: prod.splits sum.splits)

lemma Manager_new_succeeds:
  "\<forall>(key, mdl) \<in> set mods. dispatchCommand_of mdl \<noteq> None \<Longrightarrow>
     \<exists>mgr. fst (Manager_new b (Some mods) w) = Inr mgr"
  using add_modules_succeeds [of mods "[]" "debug ManagerCreated w"]
  by (auto simp: Manager_new_def Let_def split: prod.splits sum.splits)

text \<open>
  C8: when some module handed to the constructor has no \<open>dispatchCommand\<close>, the
  constructor throws; when it returns a Manager, every module (the keys of the JavaScript
  object are distinct) is in the command map under \<open>'_' + key\<close>, and every entry of the
  command map has a \<open>dispatchCommand\<close>, so a dispatch never finds a module without one.
\<close>

theorem constructor_requires_dispatchCommand:
  "((\<exists>(key, mdl) \<in> set mods. dispatchCommand_of mdl = None) \<longrightarrow>
      fst (Manager_new b (Some mods) w) =
        Inl (Error ''Module does not have dispatchCommand() method.''))
   \<and> (\<forall>mgr. fst (Manager_new b (Some mods) w) = Inr mgr \<longrightarrow>
         (distinct (map fst mods) \<longrightarrow>
            (\<forall>(key, mdl) \<in> set mods. map_of (commands mgr) (CHR ''_'' # key) = Some mdl))
         \<and> (\<forall>key mdl. map_of (commands mgr) key = Some mdl \<longrightarrow>
               (\<exists>f. dispatchCommand_of mdl = Some f)))"
proof (intro conjI impI allI)
  assume "\<exists>(key, mdl) \<in> set mods. dispatchCommand_of mdl = None"
  then show "fst (Manager_new b (Some mods) w) =
      Inl (Error ''Module does not have dispatchCommand() method.'')"
    by (rule Manager_new_fails)
next
  fix mgr
  assume ok: "fst (Manager_new b (Some mods) w) = Inr mgr" and d: "distinct (map fst mods)"
  show "\<forall>(key, mdl) \<in> set mods. map_of (commands mgr) (CHR ''_'' # key) = Some mdl"
  proof (clarify)
    fix key mdl
    assume "(key, mdl) \<in> set mods"
    with d have "map_of (rev mods) key = Some mdl" by (rule map_of_rev_distinct)
    then show "map_of (commands mgr) (CHR ''_'' # key) = Some mdl"
      by (simp add: constructed_registry [OF ok] map_of_prefixed)
  qed
next
  fix mgr key mdl
  assume "fst (Manager_new b (Some mods) w) = Inr mgr" "map_of (commands mgr) key = Some mdl"
  then show "\<exists>f. dispatchCommand_of mdl = Some f" by (rule constructed_entries)
qed

theorem constructor_requires_dispatchCommand_witness:
  "fst (Manager_new example_bot (Some [(''echo'', echo_module), (''bad'', module_without_dispatch)]) empty_world)
     = Inl (Error ''Module does not have dispatchCommand() method.'')
   \<and> fst (Manager_new example_bot (Some [(''echo'', echo_module)]) empty_world)
     = Inr \<lparr>bot = example_bot, commands = [(''_echo'', echo_module)]\<rparr>
   \<and> map_of (commands \<lparr>bot = example_bot, commands = [(''_echo'', echo_module :: workday_doc list command_module)]\<rparr>) ''_echo'' = Some echo_module
   \<and> (\<exists>f. dispatchCommand_of (echo_module :: workday_doc list command_module) = Some f)"
proof -
  let ?bad = "[(''echo'', echo_module), (''bad'', module_without_dispatch)] :: (string \<times> workday_doc list command_module) list"
  let ?good = "[(''echo'', echo_module)] :: (string \<times> workday_doc list command_module) list"
  let ?mgr = "\<lparr>bot = example_bot, commands = [(''_echo'', echo_module :: workday_doc list command_module)]\<rparr>"
  have h1: "\<exists>(key, mdl) \<in> set ?bad. dispatchCommand_of mdl = None"
    by (simp add: module_without_dispatch_def)
  have h2: "fst (Manager_new example_bot (Some ?good) empty_world) = Inr ?mgr"
    by (simp add: Manager_new_def Let_def echo_module_def)
  have h3: "distinct (map fst ?good)" by simp
  have h4: "(''echo'', echo_module) \<in> set ?good" by simp
  from constructor_requires_dispatchCommand [of ?bad example_bot empty_world] h1
  have c1: "fst (Manager_new example_bot (Some ?bad) empty_world) =
      Inl (Error ''Module does not have dispatchCommand() method.'')" by blast
  from constructor_requires_dispatchCommand [of ?good example_bot empty_world] h2 h3 h4
  have c2: "map_of (commands ?mgr) ''_echo'' = Some echo_module"
    and c3: "\<exists>f. dispatchCommand_of (echo_module :: workday_doc list command_module) = Some f"
    by fastforce+
  from c1 h2 c2 c3 show ?thesis by blast
qed

section \<open>Dispatch to a registered module\<close>

lemma dispatch_registered:
  assumes "map_of (commands mgr) (command_of (m_text m)) = Some mdl"
    and "dispatchCommand_of mdl = Some f"
  shows "Manager_dispatchCommand e mgr m w =
     (case f (m\<lparr>m_text := argument_of (m_text m)\<rparr>) (m_user m)
             (debug (ListOfCommands (map fst (commands mgr)))
               (debug (RedirectingTo (command_of (m_text m)))
                 (debug (Received (command_of (m_text m)) (owner_id (bot mgr) = m_user m)) w))) of
        (None, w3) \<Rightarrow> w3
      | (Some err, w3) \<Rightarrow> dispatch_catch mgr (m\<lparr>m_text := argument_of (m_text m)\<rparr>) err w3)"
  using assms by (simp add: Manager_dispatchCommand_def Let_def)

text \<open>
  C4: in a Manager the constructor returned, a command key with an entry in the command
  map is handled by that module's \<open>dispatchCommand\<close> alone: the outcome is what the
  module does with the message (its text replaced by the argument text), or the error
  reply if the module throws. The self-lookup and the built-in handlers, which are the
  only users of the Workday calls \<open>e\<close>, play no part.
\<close>

theorem registry_entry_takes_precedence:
  assumes "fst (Manager_new b mods w0) = Inr mgr"
    and "map_of (commands mgr) (command_of (m_text m)) = Some mdl"
  shows "\<exists>f. dispatchCommand_of mdl = Some f \<and>
     Manager_dispatchCommand e mgr m w =
       (case f (m\<lparr>m_text := argument_of (m_text m)\<rparr>) (m_user m)
               (debug (ListOfCommands (map fst (commands mgr)))
                 (debug (RedirectingTo (command_of (m_text m)))
                   (debug (Received (command_of (m_text m)) (owner_id (bot mgr) = m_user m)) w))) of
          (None, w3) \<Rightarrow> w3
        | (Some err, w3) \<Rightarrow> dispatch_catch mgr (m\<lparr>m_text := argument_of (m_text m)\<rparr>) err w3)"
proof -
  from assms obtain f where f: "dispatchCommand_of mdl = Some f"
    using constructed_entries by blast
  from dispatch_registered [OF assms(2) f] f show ?thesis by blast
qed

theorem registry_entry_takes_precedence_witness:
  "fst (Manager_new example_bot (Some [(''end'', echo_module)]) empty_world)
     = Inr \<lparr>bot = example_bot, commands = [(''_end'', echo_module)]\<rparr>
   \<and> self_lookup (command_of ''end now'') = Some Meth_end
   \<and> outbox (Manager_dispatchCommand example_env
        \<lparr>bot = example_bot, commands = [(''_end'', echo_module)]\<rparr>
        \<lparr>m_text = ''end now'', m_user = ''U1'', m_channel = ''C1''\<rparr> empty_world)
      = [(''echo: now'', ''C1'')]"
proof -
  let ?mgr = "\<lparr>bot = example_bot, commands = [(''_end'', echo_module :: workday_doc list command_module)]\<rparr>"
  let ?m = "\<lparr>m_text = ''end now'', m_user = ''U1'', m_channel = ''C1''\<rparr>"
  have key: "command_of ''end now'' = ''_end''" and arg: "argument_of ''end now'' = ''now''"
    by (simp_all add: command_of_def argument_of_def substr2_def substr1_def or_else_def Let_def)
  have h1: "fst (Manager_new example_bot (Some [(''end'', echo_module)]) empty_world) = Inr ?mgr"
    by (simp add: Manager_new_def Let_def echo_module_def)
  have h2: "map_of (commands ?mgr) (command_of (m_text ?m)) = Some echo_module"
    by (simp add: key)
  from registry_entry_takes_precedence [OF h1 h2, of example_env empty_world]
  have "outbox (Manager_dispatchCommand example_env ?mgr ?m empty_world) = [(''echo: now'', ''C1'')]"
    by (auto simp: echo_module_def key arg debug_def empty_world_def)
  moreover have "self_lookup (command_of ''end now'') = Some Meth_end"
    by (simp add: key self_lookup_def)
  ultimately show ?thesis using h1 by simp
qed

section \<open>Name collisions\<close>

text \<open>
  C9, as stated, fails: a module registered as \<open>start\<close> collides with the built-in
  \<open>_start\<close>, yet the constructor returns a Manager, and the collision is settled at
  dispatch, where the module answers and no workday is saved.
\<close>

theorem duplicate_name_not_reported_counterexample:
  "fst (Manager_new example_bot (Some [(''start'', echo_module)]) empty_world)
     = Inr \<lparr>bot = example_bot, commands = [(''_start'', echo_module)]\<rparr>
   \<and> self_lookup ''_start'' = Some Meth_start
   \<and> outbox (Manager_dispatchCommand example_env
        \<lparr>bot = example_bot, commands = [(''_start'', echo_module)]\<rparr>
        \<lparr>m_text = ''start coding'', m_user = ''U1'', m_channel = ''C1''\<rparr> empty_world)
      = [(''echo: coding'', ''C1'')]
   \<and> store (Manager_dispatchCommand example_env
        \<lparr>bot = example_bot, commands = [(''_start'', echo_module)]\<rparr>
        \<lparr>m_text = ''start coding'', m_user = ''U1'', m_channel = ''C1''\<rparr> empty_world)
      = []"
  by (simp add: Manager_new_def Manager_dispatchCommand_def Let_def echo_module_def
      self_lookup_def command_of_def argument_of_def substr2_def substr1_def or_else_def
      debug_def empty_world_def)

text \<open>
  C9, amended: no name is ever refused. Whenever every module has a \<open>dispatchCommand\<close>
  the constructor returns a Manager, whatever the keys; its command map holds, under
  \<open>'_' + key\<close>, the module given under \<open>key\<close> (a JavaScript object has each key once;
  of a list with a repeated key the last entry stays), also when \<open>'_' + key\<close> names a
  built-in handler; and a dispatch of such a key runs the module.
\<close>

theorem name_collisions_are_accepted:
  assumes "\<forall>(key, mdl) \<in> set mods. dispatchCommand_of mdl \<noteq> None"
  shows "\<exists>mgr. fst (Manager_new b (Some mods) w) = Inr mgr
     \<and> (\<forall>key. map_of (commands mgr) (CHR ''_'' # key) = map_of (rev mods) key)
     \<and> (\<forall>m mdl e w'. map_of (commands mgr) (command_of (m_text m)) = Some mdl \<longrightarrow>
          (\<exists>f. dispatchCommand_of mdl = Some f \<and>
            Manager_dispatchCommand e mgr m w' =
              (case f (m\<lparr>m_text := argument_of (m_text m)\<rparr>) (m_user m)
                      (debug (ListOfCommands (map fst (commands mgr)))
                        (debug (RedirectingTo (command_of (m_text m)))
                          (debug (Received (command_of (m_text m)) (owner_id (bot mgr) = m_user m)) w'))) of
                 (None, w3) \<Rightarrow> w3
               | (Some err, w3) \<Rightarrow>
                   dispatch_catch mgr (m\<lparr>m_text := argument_of (m_text m)\<rparr>) err w3)))"
proof -
  from assms obtain mgr where mgr: "fst (Manager_new b (Some mods) w) = Inr mgr"
    using Manager_new_succeeds by blast
  have reg: "\<forall>key. map_of (commands mgr) (CHR ''_'' # key) = map_of (rev mods) key"
    by (simp add: constructed_registry [OF mgr] map_of_prefixed)
  have disp: "\<exists>f. dispatchCommand_of mdl = Some f \<and>
            Manager_dispatchCommand e mgr m w' =
              (case f (m\<lparr>m_text := argument_of (m_text m)\<rparr>) (m_user m)
                      (debug (ListOfCommands (map fst (commands mgr)))
                        (debug (RedirectingTo (command_of (m_text m)))
                          (debug (Received (command_of (m_text m)) (owner_id (bot mgr) = m_user m)) w'))) of
                 (None, w3) \<Rightarrow> w3
               | (Some err, w3) \<Rightarrow>
                   dispatch_catch mgr (m\<lparr>m_text := argument_of (m_text m)\<rparr>) err w3)"
    if "map_of (commands mgr) (command_of (m_text m)) = Some mdl" for m mdl e w'
  proof -
    from mgr that obtain f where f: "dispatchCommand_of mdl = Some f"
      using constructed_entries by blast
    from dispatch_registered [OF that f] f show ?thesis by blast
  qed
  from mgr reg disp show ?thesis by blast
qed

theorem name_collisions_are_accepted_witness:
  "dispatchCommand_of (echo_module :: workday_doc list command_module) \<noteq> None
   \<and> dispatchCommand_of (throwing_module (Error ''x'') :: workday_doc list command_module) \<noteq> None
   \<and> fst (Manager_new example_bot
        (Some [(''break'', echo_module), (''fail'', throwing_module (Error ''x''))]) empty_world)
      = Inr \<lparr>bot = example_bot,
             commands = [(''_break'', echo_module), (''_fail'', throwing_module (Error ''x''))]\<rparr>
   \<and> self_lookup ''_break'' = Some Meth_break
   \<and> map_of (commands \<lparr>bot = example_bot,
         commands = [(''_break'', echo_module :: workday_doc list command_module),
                     (''_fail'', throwing_module (Error ''x''))]\<rparr>) ''_break''
      = Some echo_module"
proof -
  let ?mods = "[(''break'', echo_module), (''fail'', throwing_module (Error ''x''))]
    :: (string \<times> workday_doc list command_module) list"
  let ?mgr = "\<lparr>bot = example_bot,
    commands = [(''_break'', echo_module :: workday_doc list command_module),
                (''_fail'', throwing_module (Error ''x''))]\<rparr>"
  have h: "\<forall>(key, mdl) \<in> set ?mods. dispatchCommand_of mdl \<noteq> None"
    by (simp add: echo_module_def throwing_module_def)
  have run: "fst (Manager_new example_bot (Some ?mods) empty_world) = Inr ?mgr"
    by (simp add: Manager_new_def Let_def echo_module_def throwing_module_def)
  from name_collisions_are_accepted [OF h, of example_bot empty_world] run
  have "map_of (commands ?mgr) (CHR ''_'' # ''break'') = map_of (rev ?mods) ''break''"
    by auto
  then have "map_of (commands ?mgr) ''_break'' = Some echo_module" by simp
  moreover have "self_lookup ''_break'' = Some Meth_break" by (simp add: self_lookup_def)
  ultimately show ?thesis using h run by simp
qed

section \<open>The listener\<close>

lemma listen_dispatches:
  assumes "m_channel m = c # cs" and "c = CHR ''C'' \<or> c = CHR ''D''"
  shows "Manager_listen e mgr m w =
     (let t = (if prefix (mention (bot_id (bot mgr))) (m_text m)
               then substr1 (trim (m_text m)) (indexOf (trim (m_text m)) '' '' + 1)
               else trim (m_text m))
      in Manager_dispatchCommand e mgr (m\<lparr>m_text := t\<rparr>)
           (debug (BeginningToDispatch t) (debug (MessageReceived m) w)))"
  using assms by (auto simp: Manager_listen_def Let_def indexOf_zero_iff)

text \<open>
  C3: a message whose channel id does not begin with \<open>C\<close> or \<open>D\<close> (an empty id
  included) only leaves its debug line: the listener returns before
  \<open>dispatchCommand\<close>, nothing is sent and the store is untouched.
\<close>

theorem listener_drops_other_channels:
  assumes "\<forall>c cs. m_channel m = c # cs \<longrightarrow> c \<noteq> CHR ''C'' \<and> c \<noteq> CHR ''D''"
  shows "Manager_listen e mgr m w = debug (MessageReceived m) w
     \<and> outbox (Manager_listen e mgr m w) = outbox w
     \<and> store (Manager_listen e mgr m w) = store w
     \<and> debug_log (Manager_listen e mgr m w) = debug_log w @ [MessageReceived m]"
proof -
  from assms have "(case m_channel m of [] \<Rightarrow> True | c # cs \<Rightarrow> c \<noteq> CHR ''C'' \<and> c \<noteq> CHR ''D'')"
    by (cases "m_channel m") auto
  then have "Manager_listen e mgr m w = debug (MessageReceived m) w"
    by (simp add: Manager_listen_def Let_def)
  then show ?thesis by (simp add: debug_def)
qed

theorem listener_drops_other_channels_witness:
  "Manager_listen example_env \<lparr>bot = example_bot, commands = [(''_echo'', echo_module)]\<rparr>
      \<lparr>m_text = ''echo hello'', m_user = ''U1'', m_channel = ''G42''\<rparr> empty_world
    = debug (MessageReceived \<lparr>m_text = ''echo hello'', m_user = ''U1'', m_channel = ''G42''\<rparr>) empty_world
   \<and> outbox (Manager_listen example_env \<lparr>bot = example_bot, commands = [(''_echo'', echo_module)]\<rparr>
      \<lparr>m_text = ''echo hello'', m_user = ''U1'', m_channel = ''G42''\<rparr> empty_world) = []
   \<and> outbox (Manager_listen example_env \<lparr>bot = example_bot, commands = [(''_echo'', echo_module)]\<rparr>
      \<lparr>m_text = ''echo hello'', m_user = ''U1'', m_channel = ''C42''\<rparr> empty_world)
      = [(''echo: hello'', ''C42'')]"
proof -
  let ?mgr = "\<lparr>bot = example_bot, commands = [(''_echo'', echo_module :: workday_doc list command_module)]\<rparr>"
  let ?m = "\<lparr>m_text = ''echo hello'', m_user = ''U1'', m_channel = ''G42''\<rparr>"
  have h: "\<forall>c cs. m_channel ?m = c # cs \<longrightarrow> c \<noteq> CHR ''C'' \<and> c \<noteq> CHR ''D''" by simp
  from listener_drops_other_channels [OF h, of example_env ?mgr empty_world]
  have eq: "Manager_listen example_env ?mgr ?m empty_world = debug (MessageReceived ?m) empty_world"
    by (rule conjunct1)
  have none: "outbox (Manager_listen example_env ?mgr ?m empty_world) = []"
    unfolding eq by (simp add: debug_def empty_world_def)
  have "outbox (Manager_listen example_env ?mgr
      \<lparr>m_text = ''echo hello'', m_user = ''U1'', m_channel = ''C42''\<rparr> empty_world)
      = [(''echo: hello'', ''C42'')]"
    by (simp add: Manager_listen_def Manager_dispatchCommand_def Let_def echo_module_def
      command_of_def argument_of_def substr2_def substr1_def or_else_def trim_def is_space_def
      mention_def example_bot_def debug_def empty_world_def)
  with eq none show ?thesis by (intro conjI)
qed

section \<open>Starting a workday\<close>

text \<open>
  C1: when \<open>Workday.isLastDayEnded\<close> rejects, \<open>_start\<close> sends the error reply and
  leaves the store as it was. Whatever \<open>save\<close> would do (\<open>sv\<close> is any behaviour), it
  is not reached.
\<close>

theorem start_rejected_saves_nothing:
  assumes "isLastDayEnded e slack_id (store w) = Some err"
  shows "store (Manager_start (e\<lparr>save := sv\<rparr>) mgr txt slack_id channel w) = store w
     \<and> outbox (Manager_start (e\<lparr>save := sv\<rparr>) mgr txt slack_id channel w) =
         outbox w @ [(''<@'' @ slack_id @ ''>, '' @ errorMessage err, send_target (bot mgr) channel)]"
  using assms by (simp add: Manager_start_def Let_def Manager_send_def debug_def)

theorem start_rejected_saves_nothing_witness:
  "store (Manager_start example_env \<lparr>bot = example_bot, commands = []\<rparr> ''design'' ''U1'' ''C1'' empty_world)
     = [\<lparr>slackId = ''U1'', wd_begin = 0, intervals = [\<lparr>i_begin = 0, i_description = ''design''\<rparr>]\<rparr>]
   \<and> isLastDayEnded example_env ''U1''
        [\<lparr>slackId = ''U1'', wd_begin = 0, intervals = [\<lparr>i_begin = 0, i_description = ''design''\<rparr>]\<rparr>]
      = Some \<lparr>err_name = ''LeakableBotError'', err_message = ''Your last workday is not ended.''\<rparr>
   \<and> store (Manager_start example_env \<lparr>bot = example_bot, commands = []\<rparr> ''again'' ''U1'' ''C1''
        (Manager_start example_env \<lparr>bot = example_bot, commands = []\<rparr> ''design'' ''U1'' ''C1'' empty_world))
     = [\<lparr>slackId = ''U1'', wd_begin = 0, intervals = [\<lparr>i_begin = 0, i_description = ''design''\<rparr>]\<rparr>]
   \<and> outbox (Manager_start example_env \<lparr>bot = example_bot, commands = []\<rparr> ''again'' ''U1'' ''C1''
        (Manager_start example_env \<lparr>bot = example_bot, commands = []\<rparr> ''design'' ''U1'' ''C1'' empty_world))
     = [(''<@U1>'' @ [CHR 0x27] @ ''s workday is just started with design.'', ''C1''),
        (''<@U1>, Your last workday is not ended.'', ''C1'')]"
proof -
  let ?mgr = "\<lparr>bot = example_bot, commands = []\<rparr> :: workday_doc list Manager"
  let ?doc = "\<lparr>slackId = ''U1'', wd_begin = 0, intervals = [\<lparr>i_begin = 0, i_description = ''design''\<rparr>]\<rparr>"
  let ?err = "\<lparr>err_name = ''LeakableBotError'', err_message = ''Your last workday is not ended.''\<rparr>"
  let ?w1 = "Manager_start example_env ?mgr ''design'' ''U1'' ''C1'' empty_world"
  have w1: "?w1 = \<lparr>outbox = [(''<@U1>'' @ [CHR 0x27] @ ''s workday is just started with design.'', ''C1'')],
      debug_log = [], store = [?doc], now = 0\<rparr>"
    by (simp add: Manager_start_def Let_def example_env_def empty_world_def Manager_send_def
      send_target_def example_bot_def)
  have h: "isLastDayEnded example_env ''U1'' (store ?w1) = Some ?err"
    by (simp add: w1) (simp add: example_env_def)
  have same: "example_env\<lparr>save := save example_env\<rparr> = example_env" by simp
  note inst = start_rejected_saves_nothing [OF h, of "save example_env" ?mgr "''again''" "''C1''",
      unfolded same]
  have st: "store (Manager_start example_env ?mgr ''again'' ''U1'' ''C1'' ?w1) = store ?w1"
    using inst by (rule conjunct1)
  have ob: "outbox (Manager_start example_env ?mgr ''again'' ''U1'' ''C1'' ?w1) =
      outbox ?w1 @ [(''<@'' @ ''U1'' @ ''>, '' @ errorMessage ?err, send_target (bot ?mgr) ''C1'')]"
    using inst by (rule conjunct2)
  have c1: "store ?w1 = [?doc]" by (simp add: w1)
  have c2: "isLastDayEnded example_env ''U1'' [?doc] = Some ?err"
    using h unfolding c1 .
  have c3: "store (Manager_start example_env ?mgr ''again'' ''U1'' ''C1'' ?w1) = [?doc]"
    unfolding st by (rule c1)
  have c4: "outbox (Manager_start example_env ?mgr ''again'' ''U1'' ''C1'' ?w1) =
      [(''<@U1>'' @ [CHR 0x27] @ ''s workday is just started with design.'', ''C1''),
        (''<@U1>, Your last workday is not ended.'', ''C1'')]"
    unfolding ob by (simp add: w1) (simp add: errorMessage_def send_target_def example_bot_def)
  from c1 c2 c3 c4 show ?thesis by (intro conjI)
qed

section \<open>Error replies\<close>



lemma dispatch_unknown:
  assumes "map_of (commands mgr) (command_of (m_text m)) = None"
    and "self_lookup (command_of (m_text m)) = None"
  shows "Manager_dispatchCommand e mgr m w =
     dispatch_catch mgr m (TypeError ''this[command] is not a function'')
       (debug (DispatchingCommand (command_of (m_text m)) (m_user m))
         (debug (Received (command_of (m_text m)) (owner_id (bot mgr) = m_user m)) w))"
  using assms by (simp add: Manager_dispatchCommand_def Let_def)
















section \<open>An unknown command\<close>

lemma unknown_command_effect:
  assumes "map_of (commands mgr) (command_of (m_text m)) = None"
    and "self_lookup (command_of (m_text m)) = None"
  shows "outbox (Manager_dispatchCommand e mgr m w) =
      outbox w @ [(''<@'' @ m_user m @ ''>, problems captain!'', send_target (bot mgr) (m_channel m))]"
    and "store (Manager_dispatchCommand e mgr m w) = store w"
  using assms
  by (simp_all add: dispatch_unknown dispatch_catch_def outbox_send outbox_debug store_send
      store_debug errorMessage_def TypeError_def)

text \<open>
  C5: \<open>frobnicate\<close> names no module and no member of the Manager. The call of
  \<open>undefined\<close> throws a \<open>TypeError\<close>, and the \<open>catch\<close> answers it like any internal
  error: one reply, the generic text, and an untouched store. The reply does not say
  that the command is unknown.
\<close>

theorem unknown_command_gets_generic_reply:
  "map_of (commands \<lparr>bot = example_bot, commands = ([] :: (string \<times> workday_doc list command_module) list)\<rparr>)
       (command_of ''frobnicate'') = None
   \<and> self_lookup (command_of ''frobnicate'') = None
   \<and> outbox (Manager_dispatchCommand example_env \<lparr>bot = example_bot, commands = []\<rparr>
        \<lparr>m_text = ''frobnicate'', m_user = ''U1'', m_channel = ''C1''\<rparr> empty_world)
      = [(''<@U1>, problems captain!'', ''C1'')]
   \<and> store (Manager_dispatchCommand example_env \<lparr>bot = example_bot, commands = []\<rparr>
        \<lparr>m_text = ''frobnicate'', m_user = ''U1'', m_channel = ''C1''\<rparr> empty_world)
      = []"
  by (simp add: Manager_dispatchCommand_def Let_def self_lookup_def command_of_def
      argument_of_def substr2_def or_else_def dispatch_catch_def Manager_send_def
      send_target_def errorMessage_def TypeError_def debug_def example_bot_def empty_world_def)

text \<open>
  \<open>Message.throw\<close> has the text for it: for a \<open>TypeError\<close> it builds
  \<open>command '...' does not exist.\<close> (and lower-cases the whole reply, the sender's id in
  its second mention included). This is the text a \<open>send\<close> is handed when the object
  has been given one.
\<close>

lemma Message_throw_unknown_command_example:
  "outbox (Message_throw
      \<lparr>messageObject = \<lparr>m_text = ''frobnicate'', m_user = ''U1'', m_channel = ''C1''\<rparr>,
        msg_text = [], msg_command = ''_frobnicate'', msg_user = ''U1'',
        send_of = Some (\<lambda>t c w. (None, w\<lparr>outbox := outbox w @ [(t, c)]\<rparr>))\<rparr>
      (TypeError ''this[command] is not a function'') empty_world)
    = [(''<@U1>,<@u1>, command '' @ [CHR 0x27] @ ''_frobnicate'' @ [CHR 0x27] @ '' does not exist.'', ''C1'')]"
  by (simp add: Message_throw_def Let_def TypeError_def toLowerCase_def toLowerCase_char_def
      debug_def empty_world_def)

section \<open>Splitting the command from its arguments\<close>

lemma takeWhile_before: "c \<notin> set tok \<Longrightarrow> takeWhile (\<lambda>x. x \<noteq> c) (tok @ c # rest) = tok"
  by (induction tok) auto

lemma dropWhile_before: "c \<notin> set tok \<Longrightarrow> dropWhile (\<lambda>x. x \<noteq> c) (tok @ c # rest) = c # rest"
  by (induction tok) auto

lemma toLowerCase_underscore: "toLowerCase (CHR ''_'' # s) = CHR ''_'' # toLowerCase s"
  by (simp add: toLowerCase_def toLowerCase_char_def)

lemma extractCommand_eq:
  "fst (Message_extractCommand M w) =
     (toLowerCase (command_of (m_text (messageObject M))), argument_of (m_text (messageObject M)))"
  by (simp add: Message_extractCommand_def Let_def command_of_def argument_of_def
      toLowerCase_underscore)

text \<open>
  C6, as stated, fails: the split is at the first space character, not at the first
  whitespace run. Of \<open>start  now\<close>, with two spaces, the argument text is \<open> now\<close>,
  its leading space included, in \<open>Message.extractCommand\<close> and in
  \<open>Manager.dispatchCommand\<close> alike.
\<close>

theorem split_on_whitespace_run_counterexample:
  "fst (Message_extractCommand
      (fst (Message_new \<lparr>m_text = ''start  now'', m_user = ''U1'', m_channel = ''C1''\<rparr> empty_world))
      empty_world) = (''_start'', '' now'')
   \<and> argument_of ''start  now'' = '' now''
   \<and> spec_normalize ''start  now'' = (''start'', ''now'')"
  by (simp add: extractCommand_eq Message_new_def command_of_eq argument_of_eq
      toLowerCase_def toLowerCase_char_def spec_normalize_def is_space_def)

text \<open>
  C6, amended: \<open>Message.extractCommand\<close> splits at the first space character. A text
  with no space is, lower-cased and after \<open>_\<close>, the command key, and the argument text
  is empty. Otherwise the non-empty text before the first space, lower-cased and after
  \<open>_\<close>, is the command key and everything after that one space is the argument text.
  \<open>Manager.dispatchCommand\<close> computes the same argument text, and a key that is the same
  up to the case of its letters.
\<close>

theorem split_at_first_space:
  assumes "m_text (messageObject M) = t"
  shows "(CHR '' '' \<notin> set t \<longrightarrow>
            fst (Message_extractCommand M w) = (CHR ''_'' # toLowerCase t, []))
     \<and> (\<forall>tok rest. t = tok @ CHR '' '' # rest \<and> CHR '' '' \<notin> set tok \<and> tok \<noteq> [] \<longrightarrow>
            fst (Message_extractCommand M w) = (CHR ''_'' # toLowerCase tok, rest))
     \<and> argument_of t = snd (fst (Message_extractCommand M w))
     \<and> toLowerCase (command_of t) = fst (fst (Message_extractCommand M w))"
proof (intro conjI impI allI)
  assume "CHR '' '' \<notin> set t"
  then show "fst (Message_extractCommand M w) = (CHR ''_'' # toLowerCase t, [])"
    by (simp add: extractCommand_eq assms command_of_eq argument_of_eq toLowerCase_underscore)
next
  fix tok rest
  assume a: "t = tok @ CHR '' '' # rest \<and> CHR '' '' \<notin> set tok \<and> tok \<noteq> []"
  then have tw: "takeWhile (\<lambda>x. x \<noteq> CHR '' '') t = tok"
    and dw: "dropWhile (\<lambda>x. x \<noteq> CHR '' '') t = CHR '' '' # rest"
    by (simp_all add: takeWhile_before dropWhile_before)
  from a have "CHR '' '' \<in> set t" by simp
  with a tw dw show "fst (Message_extractCommand M w) = (CHR ''_'' # toLowerCase tok, rest)"
    by (simp add: extractCommand_eq assms command_of_eq argument_of_eq toLowerCase_underscore)
next
  show "argument_of t = snd (fst (Message_extractCommand M w))"
    by (simp add: extractCommand_eq assms)
next
  show "toLowerCase (command_of t) = fst (fst (Message_extractCommand M w))"
    by (simp add: extractCommand_eq assms)
qed

theorem split_at_first_space_witness:
  "fst (Message_extractCommand
      (fst (Message_new \<lparr>m_text = ''END'', m_user = ''U1'', m_channel = ''C1''\<rparr> empty_world))
      empty_world) = (''_end'', [])
   \<and> fst (Message_extractCommand
      (fst (Message_new \<lparr>m_text = ''Start Working now'', m_user = ''U1'', m_channel = ''C1''\<rparr> empty_world))
      empty_world) = (''_start'', ''Working now'')
   \<and> argument_of ''Start Working now'' = ''Working now''
   \<and> toLowerCase (command_of ''Start Working now'') = ''_start''"
proof -
  let ?M1 = "fst (Message_new \<lparr>m_text = ''END'', m_user = ''U1'', m_channel = ''C1''\<rparr> empty_world)"
  let ?M2 = "fst (Message_new \<lparr>m_text = ''Start Working now'', m_user = ''U1'', m_channel = ''C1''\<rparr> empty_world)"
  have t1: "m_text (messageObject ?M1) = ''END''" and t2: "m_text (messageObject ?M2) = ''Start Working now''"
    by (simp_all add: Message_new_def)
  have low1: "toLowerCase ''END'' = ''end''" and low2: "toLowerCase ''Start'' = ''start''"
    by (simp_all add: toLowerCase_def toLowerCase_char_def)
  have "CHR '' '' \<notin> set ''END''" by simp
  with split_at_first_space [OF t1, of empty_world]
  have c1: "fst (Message_extractCommand ?M1 empty_world) = (''_end'', [])"
    by (simp add: low1)
  have "''Start Working now'' = ''Start'' @ CHR '' '' # ''Working now'' \<and> CHR '' '' \<notin> set ''Start'' \<and> ''Start'' \<noteq> []"
    by simp
  with split_at_first_space [OF t2, of empty_world]
  have c2: "fst (Message_extractCommand ?M2 empty_world) = (''_start'', ''Working now'')"
    unfolding low2 [symmetric] by blast
  from split_at_first_space [OF t2, of empty_world] c2
  have c3: "argument_of ''Start Working now'' = ''Working now''"
    and c4: "toLowerCase (command_of ''Start Working now'') = ''_start''"
    by simp_all
  from c1 c2 c3 c4 show ?thesis by (intro conjI)
qed

section \<open>The text the listener hands on\<close>

text \<open>
  C7, as stated, fails: the listener trims the text before anything else, so a text
  that does not begin with the bot's mention is not handed on unchanged. Of \<open> help\<close>
  the text dispatched is \<open>help\<close> and the key looked up is \<open>_help\<close>; the raw text would
  have given the key \<open>_ help\<close>.
\<close>

theorem listener_leaves_text_unchanged_counterexample:
  "\<not> prefix (mention (bot_id example_bot)) '' help''
   \<and> debug_log (Manager_listen example_env \<lparr>bot = example_bot, commands = []\<rparr>
        \<lparr>m_text = '' help'', m_user = ''U1'', m_channel = ''D1''\<rparr> empty_world)
      = [MessageReceived \<lparr>m_text = '' help'', m_user = ''U1'', m_channel = ''D1''\<rparr>,
         BeginningToDispatch ''help'',
         Received ''_help'' False,
         DispatchingCommand ''_help'' ''U1'',
         FailedToDispatch ''help'' (TypeError ''this[command] is not a function'')]
   \<and> command_of '' help'' = ''_ help''"
  by (simp add: Manager_listen_def Manager_dispatchCommand_def Let_def mention_def
      example_bot_def trim_def is_space_def command_of_eq argument_of_eq self_lookup_def
      dispatch_catch_def Manager_send_def debug_def empty_world_def or_else_def)

text \<open>
  C7, amended: for a message on a public or direct channel, a text that does not begin
  with the bot's mention reaches \<open>dispatchCommand\<close> trimmed of the whitespace at both
  ends and otherwise unchanged; a text that begins with the mention, where the trimmed
  text has a space right after the mention, reaches it as the trimmed text without the
  mention and that one space (the bot's id has no space in it).
\<close>

theorem listener_trims_and_strips_mention:
  assumes "m_channel m = c # cs" and "c = CHR ''C'' \<or> c = CHR ''D''"
  shows "(\<not> prefix (mention (bot_id (bot mgr))) (m_text m) \<longrightarrow>
            Manager_listen e mgr m w =
              Manager_dispatchCommand e mgr (m\<lparr>m_text := trim (m_text m)\<rparr>)
                (debug (BeginningToDispatch (trim (m_text m))) (debug (MessageReceived m) w)))
     \<and> (\<forall>rest. prefix (mention (bot_id (bot mgr))) (m_text m) \<and>
            CHR '' '' \<notin> set (bot_id (bot mgr)) \<and>
            trim (m_text m) = mention (bot_id (bot mgr)) @ CHR '' '' # rest \<longrightarrow>
            Manager_listen e mgr m w =
              Manager_dispatchCommand e mgr (m\<lparr>m_text := rest\<rparr>)
                (debug (BeginningToDispatch rest) (debug (MessageReceived m) w)))"
proof (intro conjI impI allI)
  assume "\<not> prefix (mention (bot_id (bot mgr))) (m_text m)"
  then show "Manager_listen e mgr m w =
      Manager_dispatchCommand e mgr (m\<lparr>m_text := trim (m_text m)\<rparr>)
        (debug (BeginningToDispatch (trim (m_text m))) (debug (MessageReceived m) w))"
    by (simp add: listen_dispatches [OF assms] Let_def)
next
  fix rest
  let ?men = "mention (bot_id (bot mgr))"
  assume a: "prefix ?men (m_text m) \<and> CHR '' '' \<notin> set (bot_id (bot mgr)) \<and>
      trim (m_text m) = ?men @ CHR '' '' # rest"
  then have nosp: "CHR '' '' \<notin> set ?men" by (simp add: mention_def)
  from a have tr: "trim (m_text m) = ?men @ CHR '' '' # rest" by simp
  have "CHR '' '' \<in> set (trim (m_text m))" by (simp add: tr)
  then have "indexOf (trim (m_text m)) '' '' =
      int (length (takeWhile (\<lambda>x. x \<noteq> CHR '' '') (trim (m_text m))))"
    by (rule indexOf_char_present)
  also have "\<dots> = int (length ?men)"
    by (simp add: tr takeWhile_before [OF nosp])
  finally have "substr1 (trim (m_text m)) (indexOf (trim (m_text m)) '' '' + 1) = rest"
    by (simp add: substr1_def tr nat_add_distrib)
  with a show "Manager_listen e mgr m w =
      Manager_dispatchCommand e mgr (m\<lparr>m_text := rest\<rparr>)
        (debug (BeginningToDispatch rest) (debug (MessageReceived m) w))"
    by (simp add: listen_dispatches [OF assms] Let_def)
qed

theorem listener_trims_and_strips_mention_witness:
  "Manager_listen example_env \<lparr>bot = example_bot, commands = []\<rparr>
       \<lparr>m_text = ''  start design '', m_user = ''U1'', m_channel = ''C1''\<rparr> empty_world
     = Manager_dispatchCommand example_env \<lparr>bot = example_bot, commands = []\<rparr>
         \<lparr>m_text = ''start design'', m_user = ''U1'', m_channel = ''C1''\<rparr>
         (debug (BeginningToDispatch ''start design'')
           (debug (MessageReceived \<lparr>m_text = ''  start design '', m_user = ''U1'', m_channel = ''C1''\<rparr>)
             empty_world))
   \<and> Manager_listen example_env \<lparr>bot = example_bot, commands = []\<rparr>
       \<lparr>m_text = ''<@B1> start design '', m_user = ''U1'', m_channel = ''C1''\<rparr> empty_world
     = Manager_dispatchCommand example_env \<lparr>bot = example_bot, commands = []\<rparr>
         \<lparr>m_text = ''start design'', m_user = ''U1'', m_channel = ''C1''\<rparr>
         (debug (BeginningToDispatch ''start design'')
           (debug (MessageReceived \<lparr>m_text = ''<@B1> start design '', m_user = ''U1'', m_channel = ''C1''\<rparr>)
             empty_world))"
proof -
  let ?mgr = "\<lparr>bot = example_bot, commands = []\<rparr> :: workday_doc list Manager"
  let ?m1 = "\<lparr>m_text = ''  start design '', m_user = ''U1'', m_channel = ''C1''\<rparr>"
  let ?m2 = "\<lparr>m_text = ''<@B1> start design '', m_user = ''U1'', m_channel = ''C1''\<rparr>"
  have ch1: "m_channel ?m1 = CHR ''C'' # ''1''" and ch2: "m_channel ?m2 = CHR ''C'' # ''1''"
    by simp_all
  have cd: "CHR ''C'' = CHR ''C'' \<or> CHR ''C'' = CHR ''D''" by simp
  have men: "mention (bot_id (bot ?mgr)) = ''<@B1>''"
    by (simp add: mention_def example_bot_def)
  have t1: "trim (m_text ?m1) = ''start design''" and t2: "trim (m_text ?m2) = ''<@B1> start design''"
    by (simp_all add: trim_def is_space_def)
  have h1: "\<not> prefix (mention (bot_id (bot ?mgr))) (m_text ?m1)"
    unfolding men by simp
  have h2: "prefix (mention (bot_id (bot ?mgr))) (m_text ?m2) \<and>
      CHR '' '' \<notin> set (bot_id (bot ?mgr)) \<and>
      trim (m_text ?m2) = mention (bot_id (bot ?mgr)) @ CHR '' '' # ''start design''"
    unfolding men t2 by (simp add: example_bot_def)
  from listener_trims_and_strips_mention [OF ch1 cd, of ?mgr example_env empty_world,
      THEN conjunct1, rule_format, OF h1]
  have c1: "Manager_listen example_env ?mgr ?m1 empty_world =
      Manager_dispatchCommand example_env ?mgr (?m1\<lparr>m_text := trim (m_text ?m1)\<rparr>)
        (debug (BeginningToDispatch (trim (m_text ?m1))) (debug (MessageReceived ?m1) empty_world))" .
  from listener_trims_and_strips_mention [OF ch2 cd, of ?mgr example_env empty_world,
      THEN conjunct2, rule_format, OF h2]
  have c2: "Manager_listen example_env ?mgr ?m2 empty_world =
      Manager_dispatchCommand example_env ?mgr (?m2\<lparr>m_text := ''start design''\<rparr>)
        (debug (BeginningToDispatch ''start design'') (debug (MessageReceived ?m2) empty_world))" .
  from c1 have c1': "Manager_listen example_env ?mgr ?m1 empty_world =
      Manager_dispatchCommand example_env ?mgr \<lparr>m_text = ''start design'', m_user = ''U1'', m_channel = ''C1''\<rparr>
        (debug (BeginningToDispatch ''start design'') (debug (MessageReceived ?m1) empty_world))"
    unfolding t1 by simp
  from c2 have c2': "Manager_listen example_env ?mgr ?m2 empty_world =
      Manager_dispatchCommand example_env ?mgr \<lparr>m_text = ''start design'', m_user = ''U1'', m_channel = ''C1''\<rparr>
        (debug (BeginningToDispatch ''start design'') (debug (MessageReceived ?m2) empty_world))"
    by simp
  from c1' c2' show ?thesis by (intro conjI)
qed

end
